theory Spec2Isabelle
  imports Complex_Main "HOL-Library.AList"
begin

section \<open>xappy/query.py: the data model\<close>

text \<open>
  The operators accepted by \<open>Query.compose\<close> (\<open>Query.OP_AND\<close>, \<open>Query.OP_OR\<close>) and the
  operators handed to \<open>Query.__combine_with\<close> by \<open>xor\<close>, \<open>and_not\<close>, \<open>filter\<close> and
  \<open>adjust\<close>.
\<close>

datatype operator = OP_AND | OP_OR

datatype pairop = OP_XOR | OP_AND_NOT | OP_FILTER | OP_AND_MAYBE

text \<open>
  The native expression (\<open>xapian.Query\<close>) is owned by the engine.  It is kept as the tree
  of the constructor calls that query.py makes: \<open>xapian.Query()\<close>, an expression that
  reaches query.py from outside (named by a tag), \<open>xapian.Query(operator, xapqs)\<close>,
  \<open>xapian.Query(operator, a, b)\<close> and \<open>xapian.Query(OP_SCALE_WEIGHT, q, multiplier)\<close>.
  The constructors for a list and for a pair of expressions are taken as total.  The one
  for \<open>OP_SCALE_WEIGHT\<close> builds the expression for every factor that is not negative;
  for a negative factor the engine may raise \<open>InvalidArgumentError\<close>.  Whether it does,
  and what it answers to \<open>empty()\<close>, are parameters of the model (see \<open>env\<close> below).
\<close>

datatype xapq =
    XQuery
  | XRaw string
  | XMulti operator "xapq list"
  | XPair pairop xapq xapq
  | XScale xapq real

text \<open>
  A connection is compared by identity only (\<open>is\<close>, \<open>is not\<close>), so it is its identity.
  A reference in \<open>__refs\<close> is opaque.  A range is the tuple (fieldname, start, end),
  compared with \<open>==\<close> by \<open>not in\<close>.
\<close>

type_synonym conn = nat
type_synonym ref = nat
type_synonym range = "string \<times> int \<times> int"

text \<open>
  \<open>__search_params\<close> is a dict whose only key ever written is \<open>'facets'\<close>; its value is
  a dict with the key \<open>'invert'\<close> and, once \<open>setdefault('fields', {})\<close> has run, the key
  \<open>'fields'\<close>, a dict from field name to (checkatleast, desired_num_of_categories).
  Dicts keep insertion order, so they are association lists.
\<close>

record facets =
  f_invert :: bool
  f_fields :: "(string \<times> (int option \<times> int option)) list option"

type_synonym search_params = "(string \<times> facets) list"

text \<open>
  The value of \<open>multiplier\<close> in \<open>__mul__\<close>: a number, or an object for which
  \<open>xapian.Query(OP_SCALE_WEIGHT, q, multiplier)\<close> raises TypeError.
\<close>

datatype multiplier = Num real | NotNum

text \<open>
  An entry of the \<open>queries\<close> argument of \<open>compose\<close>, the \<open>other\<close> of a binary operator,
  or the \<open>query\<close> argument of the constructor: \<open>None\<close>, a \<open>xapian.Query\<close>, a
  \<open>xappy.Query\<close>, or an object of another type.  The fields of a \<open>xappy.Query\<close> are, in
  order: \<open>__op\<close>, \<open>__subqs\<close>, \<open>__query\<close>, \<open>__refs\<close>, \<open>__conn\<close>, \<open>__ranges\<close>,
  \<open>__serialised\<close>, the first component of \<open>__cacheinfo\<close> and \<open>__search_params\<close>.
\<close>

datatype query =
  Query (q_op: "operator option") (q_subqs: "operand list option") (q_query: xapq)
        (q_refs: "ref list") (q_conn: "conn option") (q_ranges: "range list")
        (q_serialised: "string option") (q_queryid: "nat option")
        (q_search_params: search_params)
and operand = PyNone | Raw xapq | Node query | Other

text \<open>
  The exceptions of query.py.  Every \<open>ValueError\<close> is told apart by its message, every
  \<open>TypeError\<close> by the operation that raises it.  \<open>InvalidArgumentError\<close> is the
  engine's (\<open>xapian.InvalidArgumentError\<close>); query.py does not catch it.
\<close>

datatype value_error =
    NotComposable
  | ConnectionMismatch
  | NoConnection
  | FacetsAfterExcept
  | ExceptAfterFacets

datatype type_error =
    BadOperand
  | NotIterable
  | JoinNoneItem
  | JoinArgCount
  | NoneConcat
  | UnsupportedOperand

datatype error =
    ValueError value_error
  | TypeError type_error
  | AttributeError
  | InvalidArgumentError

text \<open>The result of a binary special method, which may be \<open>NotImplemented\<close>.\<close>

datatype 'a pyret = NotImplemented | Ret 'a

text \<open>
  What query.py asks of its collaborators: \<open>xapian.Query.empty()\<close>; whether
  \<open>xapian.Query(OP_SCALE_WEIGHT, q, factor)\<close> raises \<open>InvalidArgumentError\<close>, asked for a
  negative factor only; \<open>SearchConnection.get_max_possible_weight(query)\<close>; and Python's
  \<open>repr\<close> of a multiplier, of a tuple of field names and of an optional count.
\<close>

record env =
  x_empty :: "xapq \<Rightarrow> bool"
  x_scale_raises :: "xapq \<Rightarrow> real \<Rightarrow> bool"
  conn_max_weight :: "conn \<Rightarrow> query \<Rightarrow> real"
  repr_mult :: "multiplier \<Rightarrow> string"
  repr_names :: "string list \<Rightarrow> string"
  repr_arg :: "int option \<Rightarrow> string"

subsection \<open>Field assignment\<close>

fun set_op_subqs :: "operator \<Rightarrow> operand list \<Rightarrow> query \<Rightarrow> query" where
  "set_op_subqs op subqs (Query _ _ xq refs c rs s qid sp) =
     Query (Some op) (Some subqs) xq refs c rs s qid sp"

fun set_query :: "xapq \<Rightarrow> query \<Rightarrow> query" where
  "set_query xq (Query op subqs _ refs c rs s qid sp) = Query op subqs xq refs c rs s qid sp"

fun set_refs :: "ref list \<Rightarrow> query \<Rightarrow> query" where
  "set_refs refs (Query op subqs xq _ c rs s qid sp) = Query op subqs xq refs c rs s qid sp"

fun set_conn :: "conn option \<Rightarrow> query \<Rightarrow> query" where
  "set_conn c (Query op subqs xq refs _ rs s qid sp) = Query op subqs xq refs c rs s qid sp"

fun set_ranges :: "range list \<Rightarrow> query \<Rightarrow> query" where
  "set_ranges rs (Query op subqs xq refs c _ s qid sp) = Query op subqs xq refs c rs s qid sp"

fun set_serialised :: "string option \<Rightarrow> query \<Rightarrow> query" where
  "set_serialised s (Query op subqs xq refs c rs _ qid sp) = Query op subqs xq refs c rs s qid sp"

fun set_search_params :: "search_params \<Rightarrow> query \<Rightarrow> query" where
  "set_search_params sp (Query op subqs xq refs c rs s qid _) = Query op subqs xq refs c rs s qid sp"

section \<open>Composability and the merge of parameters\<close>

definition empty_query :: "env \<Rightarrow> query \<Rightarrow> bool" where
  "empty_query e self = x_empty e (q_query self)"

definition is_composable :: "query \<Rightarrow> bool" where
  "is_composable self = (if length (q_search_params self) \<noteq> 0 then False else True)"

definition check_composable :: "query \<Rightarrow> error + unit" where
  "check_composable self =
     (if \<not> is_composable self then Inl (ValueError NotComposable) else Inr ())"

text \<open>
  The loop \<open>for range in query.__ranges: if range not in self.__ranges:
  self.__ranges.append(range)\<close>, on the target's list.
\<close>

fun merge_ranges :: "range list \<Rightarrow> range list \<Rightarrow> range list" where
  "merge_ranges target [] = target"
| "merge_ranges target (r # rs) =
     (if r \<notin> set target then merge_ranges (target @ [r]) rs else merge_ranges target rs)"

text \<open>
  \<open>__merge_params(self, query)\<close>: the updated \<open>self\<close>, or the ValueError.  The
  connection is reconciled first; \<open>combine_refs_ranges\<close> is the rest of the body
  (\<open>self.__refs.extend(query.__refs)\<close> and the loop over the ranges).
\<close>

definition combine_refs_ranges :: "query \<Rightarrow> query \<Rightarrow> query" where
  "combine_refs_ranges self query =
     set_ranges (merge_ranges (q_ranges self) (q_ranges query))
       (set_refs (q_refs self @ q_refs query) self)"

definition merge_params :: "query \<Rightarrow> query \<Rightarrow> error + query" where
  "merge_params self query =
     (if q_conn self \<noteq> q_conn query then
        (if q_conn self = None then Inr (combine_refs_ranges (set_conn (q_conn query) self) query)
         else if q_conn query \<noteq> None then Inl (ValueError ConnectionMismatch)
         else Inr (combine_refs_ranges self query))
      else Inr (combine_refs_ranges self query))"

text \<open>
  \<open>Query.__init__(query, _refs, _conn, _ranges, _serialised, _queryid)\<close>.  An argument left
  out is \<open>None\<close>.  An object that is neither \<open>None\<close> nor a \<open>xapian.Query\<close> is taken for a
  \<open>xappy.Query\<close>, whose private fields another object does not have.
\<close>

definition Query_init ::
  "operand \<Rightarrow> ref list option \<Rightarrow> conn option \<Rightarrow> range list option \<Rightarrow> string option
     \<Rightarrow> nat option \<Rightarrow> error + query" where
  "Query_init query refs0 conn0 ranges0 serialised0 queryid =
     (let refs = (case refs0 of None \<Rightarrow> [] | Some rs \<Rightarrow> rs);
          ranges = (case ranges0 of None \<Rightarrow> [] | Some rs \<Rightarrow> rs)
      in case query of
           PyNone \<Rightarrow>
             Inr (Query None None XQuery refs conn0 ranges
                    (case serialised0 of None \<Rightarrow> Some ''Query()'' | Some s \<Rightarrow> Some s)
                    queryid [])
         | Raw xq \<Rightarrow> Inr (Query None None xq refs conn0 ranges serialised0 queryid [])
         | Node q \<Rightarrow>
             merge_params
               (Query None None (q_query q) refs conn0 ranges
                  (case serialised0 of None \<Rightarrow> q_serialised q | Some s \<Rightarrow> Some s)
                  queryid (q_search_params q))
               q
         | Other \<Rightarrow> Inl AttributeError)"

text \<open>\<open>Query()\<close>, the call with no argument.\<close>

definition Query_new :: query where
  "Query_new = Query None None XQuery [] None [] (Some ''Query()'') None []"

definition evalable_repr :: "query \<Rightarrow> string option" where
  "evalable_repr self = q_serialised self"

section \<open>Composition\<close>

text \<open>\<open>tuple(filter(lambda x: x is not None, queries))\<close>.\<close>

fun is_not_None :: "operand \<Rightarrow> bool" where
  "is_not_None PyNone = False"
| "is_not_None _ = True"

text \<open>
  \<open>for q in queries: if hasattr(q, '_check_composable'): q._check_composable()\<close>.  Only
  a \<open>xappy.Query\<close> has the method.
\<close>

fun check_queries :: "operand list \<Rightarrow> error + unit" where
  "check_queries [] = Inr ()"
| "check_queries (Node q # qs) =
     (case check_composable q of Inl e \<Rightarrow> Inl e | Inr _ \<Rightarrow> check_queries qs)"
| "check_queries (_ # qs) = check_queries qs"

text \<open>
  One turn of the flattening loop: what the operand adds to \<open>flattened_queries\<close>.
  \<open>extend(None)\<close> raises TypeError; an object without the private field \<open>__op\<close>
  raises AttributeError.
\<close>

fun flatten1 :: "operator \<Rightarrow> operand \<Rightarrow> error + operand list" where
  "flatten1 op (Raw xq) = Inr [Raw xq]"
| "flatten1 op (Node q) =
     (if q_op q = Some op then
        (case q_subqs q of None \<Rightarrow> Inl (TypeError NotIterable) | Some subqs \<Rightarrow> Inr subqs)
      else Inr [Node q])"
| "flatten1 op _ = Inl AttributeError"

fun flatten_queries :: "operator \<Rightarrow> operand list \<Rightarrow> error + operand list" where
  "flatten_queries op [] = Inr []"
| "flatten_queries op (q # qs) =
     (case flatten1 op q of
        Inl e \<Rightarrow> Inl e
      | Inr front \<Rightarrow>
          (case flatten_queries op qs of Inl e \<Rightarrow> Inl e | Inr rest \<Rightarrow> Inr (front @ rest)))"

text \<open>
  The loop over \<open>flattened_queries\<close>, on the state (\<open>xapqs\<close>, \<open>serialisedqs\<close>,
  \<open>result\<close>); \<open>serialisedqs\<close> is \<open>None\<close> once an operand has no serialised form.
\<close>

fun build :: "operand list \<Rightarrow> xapq list \<times> string list option \<times> query
                \<Rightarrow> error + xapq list \<times> string list option \<times> query" where
  "build [] st = Inr st"
| "build (Raw xq # qs) (xapqs, serialisedqs, result) = build qs (xapqs @ [xq], None, result)"
| "build (Node q # qs) (xapqs, serialisedqs, result) =
     (case merge_params result q of
        Inl e \<Rightarrow> Inl e
      | Inr result' \<Rightarrow>
          build qs
            (xapqs @ [q_query q],
             (case serialisedqs of
                None \<Rightarrow> None
              | Some ss \<Rightarrow> (case q_serialised q of None \<Rightarrow> None | Some s \<Rightarrow> Some (ss @ [s]))),
             result'))"
| "build (_ # qs) st = Inl (TypeError BadOperand)"

text \<open>\<open>sep.join(strings)\<close>.\<close>

fun join :: "string \<Rightarrow> string list \<Rightarrow> string" where
  "join sep [] = []"
| "join sep [s] = s"
| "join sep (s # t # ss) = s @ sep @ join sep (t # ss)"

text \<open>The serialised form that \<open>compose\<close> gives to \<open>serialisedqs\<close>, when it is not \<open>None\<close>.\<close>

definition compose_serialised :: "operator \<Rightarrow> string list \<Rightarrow> string" where
  "compose_serialised op serialisedqs =
     (if length serialisedqs = 0 then ''Query()''
      else if length serialisedqs = 1 then serialisedqs ! 0
      else if length serialisedqs = 2 then
        ''('' @ join (case op of OP_AND \<Rightarrow> '' & '' | OP_OR \<Rightarrow> '' | '') serialisedqs @ '')''
      else
        ''Query.compose('' @ (case op of OP_AND \<Rightarrow> ''Query.OP_AND'' | OP_OR \<Rightarrow> ''Query.OP_OR'')
          @ '', ('' @ join '', '' serialisedqs @ ''))'')"

text \<open>
  The body of \<open>compose\<close> from \<open>result = Query()\<close> on, for the flattened list: the
  loop, then \<open>result.__query\<close> and, when \<open>serialisedqs\<close> is not \<open>None\<close>,
  \<open>result.__serialised\<close>.
\<close>

definition compose_flattened :: "operator \<Rightarrow> operand list \<Rightarrow> error + query" where
  "compose_flattened op flattened_queries =
     (case build flattened_queries
             ([], Some [], set_op_subqs op flattened_queries Query_new) of
        Inl e \<Rightarrow> Inl e
      | Inr (xapqs, serialisedqs, result) \<Rightarrow>
          Inr (case serialisedqs of
                 None \<Rightarrow> set_query (XMulti op xapqs) result
               | Some ss \<Rightarrow>
                   set_serialised (Some (compose_serialised op ss))
                     (set_query (XMulti op xapqs) result)))"

text \<open>\<open>Query.compose(operator, queries)\<close>.\<close>

definition compose :: "operator \<Rightarrow> operand list \<Rightarrow> error + query" where
  "compose op queries0 =
     (let queries = filter is_not_None queries0 in
      if length queries = 0 then Inr Query_new
      else if length queries = 1 then Query_init (queries ! 0) None None None None None
      else
        (case check_queries queries of
           Inl e \<Rightarrow> Inl e
         | Inr _ \<Rightarrow>
            (case flatten_queries op queries of
               Inl e \<Rightarrow> Inl e
             | Inr flattened_queries \<Rightarrow> compose_flattened op flattened_queries)))"

text \<open>
  What an operand of the flattened list adds to \<open>serialisedqs\<close> in the loop of
  \<open>compose\<close>: its serialised form, or \<open>None\<close> when it has none (a \<open>xapian.Query\<close>
  never has one).
\<close>

fun serialised_of :: "operand \<Rightarrow> string option" where
  "serialised_of (Node q) = q_serialised q"
| "serialised_of _ = None"

text \<open>
  \<open>__mul__(self, multiplier)\<close>.  The serialised form is written before the native
  expression is built.  A multiplier that is not a number makes the engine's constructor
  raise TypeError, which is caught and gives \<open>NotImplemented\<close>; a negative factor that
  the engine rejects makes it raise \<open>InvalidArgumentError\<close>, which is not caught.
\<close>

definition mul :: "env \<Rightarrow> query \<Rightarrow> multiplier \<Rightarrow> error + query pyret" where
  "mul e self multiplier =
     (case merge_params Query_new self of
        Inl err \<Rightarrow> Inl err
      | Inr result \<Rightarrow>
         (case check_composable self of
            Inl err \<Rightarrow> Inl err
          | Inr _ \<Rightarrow>
             (let result' =
                (case q_serialised self of
                   None \<Rightarrow> result
                 | Some s \<Rightarrow>
                     set_serialised
                       (Some (''('' @ s @ '' * '' @ repr_mult e multiplier @ '')'')) result)
              in case multiplier of
                   Num factor \<Rightarrow>
                     if factor < 0 \<and> x_scale_raises e (q_query self) factor
                     then Inl InvalidArgumentError
                     else Inr (Ret (set_query (XScale (q_query self) factor) result'))
                 | NotNum \<Rightarrow> Inr NotImplemented)))"

text \<open>\<open>isinstance(other, (Query, xapian.Query))\<close>.\<close>

fun is_query_instance :: "operand \<Rightarrow> bool" where
  "is_query_instance (Raw _) = True"
| "is_query_instance (Node _) = True"
| "is_query_instance _ = False"

text \<open>\<open>__and__\<close> and \<open>__or__\<close>.\<close>

definition query_and :: "query \<Rightarrow> operand \<Rightarrow> error + query pyret" where
  "query_and self other =
     (if \<not> is_query_instance other then Inr NotImplemented
      else (case compose OP_AND [Node self, other] of
              Inl e \<Rightarrow> Inl e | Inr r \<Rightarrow> Inr (Ret r)))"

definition query_or :: "query \<Rightarrow> operand \<Rightarrow> error + query pyret" where
  "query_or self other =
     (if \<not> is_query_instance other then Inr NotImplemented
      else (case compose OP_OR [Node self, other] of
              Inl e \<Rightarrow> Inl e | Inr r \<Rightarrow> Inr (Ret r)))"

text \<open>The method name that \<open>__combine_with\<close> looks up for its operator.\<close>

fun funcname :: "pairop \<Rightarrow> string" where
  "funcname OP_XOR = ''.xor''"
| "funcname OP_AND_NOT = ''.and_not''"
| "funcname OP_FILTER = ''.filter''"
| "funcname OP_AND_MAYBE = ''.adjust''"

text \<open>\<open>__combine_with(self, operator, other)\<close>.\<close>

definition combine_with :: "query \<Rightarrow> pairop \<Rightarrow> operand \<Rightarrow> error + query" where
  "combine_with self op other =
     (case Query_init (Node self) None None None None None of
        Inl e \<Rightarrow> Inl e
      | Inr result \<Rightarrow>
         (case check_composable self of
            Inl e \<Rightarrow> Inl e
          | Inr _ \<Rightarrow>
             (case other of
                Raw oquery \<Rightarrow> Inr (set_query (XPair op (q_query self) oquery) result)
              | Node oq \<Rightarrow>
                 (case check_composable oq of
                    Inl e \<Rightarrow> Inl e
                  | Inr _ \<Rightarrow>
                     (case merge_params result oq of
                        Inl e \<Rightarrow> Inl e
                      | Inr result' \<Rightarrow>
                          Inr (set_query (XPair op (q_query self) (q_query oq))
                                 (case (q_serialised self, q_serialised oq) of
                                    (Some s, Some t) \<Rightarrow>
                                      set_serialised
                                        (Some (join [] [s, funcname op, ''('' @ t @ '')'']))
                                        result'
                                  | _ \<Rightarrow> result'))))
              | _ \<Rightarrow> Inl (TypeError BadOperand))))"

definition query_xor :: "query \<Rightarrow> operand \<Rightarrow> error + query pyret" where
  "query_xor self other =
     (if \<not> is_query_instance other then Inr NotImplemented
      else (case combine_with self OP_XOR other of
              Inl e \<Rightarrow> Inl e | Inr r \<Rightarrow> Inr (Ret r)))"

definition xor_query :: "query \<Rightarrow> operand \<Rightarrow> error + query" where
  "xor_query self other = combine_with self OP_XOR other"

definition and_not :: "query \<Rightarrow> operand \<Rightarrow> error + query" where
  "and_not self other = combine_with self OP_AND_NOT other"

definition filter_query :: "query \<Rightarrow> operand \<Rightarrow> error + query" where
  "filter_query self other = combine_with self OP_FILTER other"

definition adjust :: "query \<Rightarrow> operand \<Rightarrow> error + query" where
  "adjust self other = combine_with self OP_AND_MAYBE other"

definition and_maybe :: "query \<Rightarrow> operand \<Rightarrow> error + query" where
  "and_maybe = adjust"

section \<open>Normalisation\<close>

text \<open>\<open>get_max_possible_weight(self)\<close>: 0 for an empty query, before the connection is looked at.\<close>

definition get_max_possible_weight :: "env \<Rightarrow> query \<Rightarrow> error + real" where
  "get_max_possible_weight e self =
     (if empty_query e self then Inr 0
      else (case q_conn self of
              None \<Rightarrow> Inl (ValueError NoConnection)
            | Some c \<Rightarrow> Inr (conn_max_weight e c self)))"

text \<open>
  \<open>norm(self, maxweight)\<close>.  \<open>self * x\<close> is \<open>__mul__\<close>, whose exceptions pass through;
  were it to answer
  \<open>NotImplemented\<close>, the operator would raise TypeError.  \<open>self.__serialised + '.norm()'\<close>
  raises TypeError when \<open>self.__serialised\<close> is \<open>None\<close>.
\<close>

definition norm_query :: "env \<Rightarrow> query \<Rightarrow> real \<Rightarrow> error + query" where
  "norm_query e self maxweight =
     (case get_max_possible_weight e self of
        Inl err \<Rightarrow> Inl err
      | Inr max_possible \<Rightarrow>
         (if max_possible > 0 then
            (case mul e self (Num (maxweight / max_possible)) of
               Inl err \<Rightarrow> Inl err
             | Inr NotImplemented \<Rightarrow> Inl (TypeError UnsupportedOperand)
             | Inr (Ret result) \<Rightarrow>
                (case q_serialised self of
                   None \<Rightarrow> Inl (TypeError NoneConcat)
                 | Some s \<Rightarrow>
                    (if maxweight = 1
                     then Inr (set_serialised (Some (s @ ''.norm()'')) result)
                     else Inr (set_serialised
                                 (Some (s @ ''.norm('' @ repr_mult e (Num maxweight) @ '')''))
                                 result))))
          else Inr self))"

section \<open>Facets\<close>

text \<open>
  \<open>d.setdefault('facets', {'invert': b})\<close> on \<open>__search_params\<close>: the dict after the
  call, and the value the call returns.
\<close>

definition setdefault_facets :: "bool \<Rightarrow> search_params \<Rightarrow> search_params \<times> facets" where
  "setdefault_facets b sp =
     (case map_of sp ''facets'' of
        None \<Rightarrow> (sp @ [(''facets'', \<lparr>f_invert = b, f_fields = None\<rparr>)],
                 \<lparr>f_invert = b, f_fields = None\<rparr>)
      | Some f \<Rightarrow> (sp, f))"

text \<open>
  \<open>fields = facets.setdefault('fields', {})\<close> followed by
  \<open>for fieldname in fieldnames: fields[fieldname] = v\<close>: the facets dict afterwards.
\<close>

definition set_fields ::
  "string list \<Rightarrow> int option \<times> int option \<Rightarrow> facets \<Rightarrow> facets" where
  "set_fields fieldnames v f =
     f\<lparr>f_fields :=
         Some (fold (\<lambda>fieldname fs. AList.update fieldname v fs) fieldnames
                 (case f_fields f of None \<Rightarrow> [] | Some fs \<Rightarrow> fs))\<rparr>"

text \<open>
  \<open>get_facets(self, fieldnames, checkatleast, desired_num_of_categories)\<close>.
  \<open>''.join((self.__serialised, ...))\<close> raises TypeError when \<open>self.__serialised\<close> is
  \<open>None\<close>.
\<close>

definition get_facets ::
  "env \<Rightarrow> query \<Rightarrow> string list \<Rightarrow> int option \<Rightarrow> int option \<Rightarrow> error + query" where
  "get_facets e self fieldnames checkatleast desired_num_of_categories =
     (case Query_init (Node self) None None None None None of
        Inl err \<Rightarrow> Inl err
      | Inr result \<Rightarrow>
         (case setdefault_facets False (q_search_params result) of
            (sp, facets) \<Rightarrow>
              if f_invert facets then Inl (ValueError FacetsAfterExcept)
              else
                (let sp' = AList.update ''facets''
                             (set_fields fieldnames (checkatleast, desired_num_of_categories) facets)
                             sp
                 in case q_serialised self of
                      None \<Rightarrow> Inl (TypeError JoinNoneItem)
                    | Some s \<Rightarrow>
                        Inr (set_serialised
                               (Some (join [] [s, ''.get_facets('', repr_names e fieldnames, '', '',
                                               repr_arg e checkatleast, '', '',
                                               repr_arg e desired_num_of_categories, '')'']))
                               (set_search_params sp' result)))))"

definition get_facet :: "env \<Rightarrow> query \<Rightarrow> string \<Rightarrow> int option \<Rightarrow> int option \<Rightarrow> error + query" where
  "get_facet e self fieldname checkatleast desired_num_of_categories =
     get_facets e self [fieldname] checkatleast desired_num_of_categories"

text \<open>
  \<open>get_facets_except(self, fieldnames, checkatleast, desired_num_of_categories)\<close>.  The
  last statement calls \<open>''.join\<close> with four arguments, \<open>''.join(self.__serialised,
  '.get_facets(', repr(fieldnames), ')')\<close>; \<open>str.join\<close> takes exactly one, so the call
  raises TypeError whatever the arguments are, and the copy with its updated facets is
  dropped.
\<close>

definition get_facets_except ::
  "env \<Rightarrow> query \<Rightarrow> string list \<Rightarrow> int option \<Rightarrow> int option \<Rightarrow> error + query" where
  "get_facets_except e self fieldnames checkatleast desired_num_of_categories =
     (case Query_init (Node self) None None None None None of
        Inl err \<Rightarrow> Inl err
      | Inr result \<Rightarrow>
         (case setdefault_facets True (q_search_params result) of
            (sp, facets) \<Rightarrow>
              if \<not> f_invert facets then Inl (ValueError ExceptAfterFacets)
              else
                (let sp' = AList.update ''facets'' (set_fields fieldnames (None, None) facets) sp;
                     result' = set_search_params sp' result
                 in Inl (TypeError JoinArgCount))))"

section \<open>Example values\<close>

text \<open>
  A collaborator environment for the concrete instances below: only \<open>xapian.Query()\<close> is
  empty, every negative scale factor is rejected, the connection 0 reports a maximum possible weight of 0 and every other
  connection reports 2, \<open>repr(2.0)\<close> is \<open>2.0\<close>, the tuple of field names prints as
  \<open>('f',)\<close> and an absent count prints as \<open>None\<close>.
\<close>

definition env_ex :: env where
  "env_ex = \<lparr>x_empty = (\<lambda>x. x = XQuery),
             x_scale_raises = (\<lambda>x factor. True),
             conn_max_weight = (\<lambda>c q. if c = 0 then 0 else 2),
             repr_mult = (\<lambda>m. if m = Num 2 then ''2.0'' else ''1.0''),
             repr_names = (\<lambda>ns. ''('' @ CHR 0x27 # ''f'' @ CHR 0x27 # '',)''),
             repr_arg = (\<lambda>a. ''None'')\<rparr>"

text \<open>Leaf queries with the serialised forms \<open>A\<close>, \<open>B\<close> and \<open>C\<close>.\<close>

definition leaf_a :: query where
  "leaf_a = Query None None (XRaw ''a'') [] None [] (Some ''A'') None []"

definition leaf_b :: query where
  "leaf_b = Query None None (XRaw ''b'') [] None [] (Some ''B'') None []"

definition leaf_c :: query where
  "leaf_c = Query None None (XRaw ''c'') [] None [] (Some ''C'') None []"

text \<open>Two queries whose ranges share the triple (date, 0, 9).\<close>

definition range_target :: query where
  "range_target = set_ranges [(''price'', 1, 5), (''date'', 0, 9)] leaf_a"

definition range_source :: query where
  "range_source = set_ranges [(''date'', 0, 9), (''size'', 2, 3), (''date'', 0, 9)] leaf_b"

text \<open>\<open>Query(xapian_query)\<close>: a query built from a raw engine expression.\<close>

definition raw_node :: query where
  "raw_node = Query None None (XRaw ''t'') [] None [] None None []"

text \<open>
  What \<open>leaf_a.get_facets(('f',))\<close> returns, and that query on connection 1 after
  \<open>_set_serialised(None)\<close>.
\<close>

definition faceted_a :: query where
  "faceted_a =
     set_search_params [(''facets'', \<lparr>f_invert = False, f_fields = Some [(''f'', (None, None))]\<rparr>)]
       (set_serialised
          (Some (''A.get_facets('' @ repr_names env_ex [''f''] @ '', None, None)'')) leaf_a)"

definition faceted_unknown :: query where
  "faceted_unknown = set_serialised None (set_conn (Some 1) faceted_a)"

text \<open>What \<open>compose(OP_AND, [leaf_a, leaf_b])\<close> returns.\<close>

definition and_ab :: query where
  "and_ab = Query (Some OP_AND) (Some [Node leaf_a, Node leaf_b])
              (XMulti OP_AND [XRaw ''a'', XRaw ''b'']) [] None [] (Some ''(A & B)'') None []"

section \<open>Field assignment and the constructor\<close>

lemma set_query_sel [simp]:
  "q_op (set_query xq q) = q_op q"
  "q_subqs (set_query xq q) = q_subqs q"
  "q_query (set_query xq q) = xq"
  "q_refs (set_query xq q) = q_refs q"
  "q_conn (set_query xq q) = q_conn q"
  "q_ranges (set_query xq q) = q_ranges q"
  "q_serialised (set_query xq q) = q_serialised q"
  "q_queryid (set_query xq q) = q_queryid q"
  "q_search_params (set_query xq q) = q_search_params q"
  by (cases q; simp)+

lemma set_refs_sel [simp]:
  "q_op (set_refs refs q) = q_op q"
  "q_subqs (set_refs refs q) = q_subqs q"
  "q_query (set_refs refs q) = q_query q"
  "q_refs (set_refs refs q) = refs"
  "q_conn (set_refs refs q) = q_conn q"
  "q_ranges (set_refs refs q) = q_ranges q"
  "q_serialised (set_refs refs q) = q_serialised q"
  "q_queryid (set_refs refs q) = q_queryid q"
  "q_search_params (set_refs refs q) = q_search_params q"
  by (cases q; simp)+

lemma set_conn_sel [simp]:
  "q_op (set_conn c q) = q_op q"
  "q_subqs (set_conn c q) = q_subqs q"
  "q_query (set_conn c q) = q_query q"
  "q_refs (set_conn c q) = q_refs q"
  "q_conn (set_conn c q) = c"
  "q_ranges (set_conn c q) = q_ranges q"
  "q_serialised (set_conn c q) = q_serialised q"
  "q_queryid (set_conn c q) = q_queryid q"
  "q_search_params (set_conn c q) = q_search_params q"
  by (cases q; simp)+

lemma set_ranges_sel [simp]:
  "q_op (set_ranges rs q) = q_op q"
  "q_subqs (set_ranges rs q) = q_subqs q"
  "q_query (set_ranges rs q) = q_query q"
  "q_refs (set_ranges rs q) = q_refs q"
  "q_conn (set_ranges rs q) = q_conn q"
  "q_ranges (set_ranges rs q) = rs"
  "q_serialised (set_ranges rs q) = q_serialised q"
  "q_queryid (set_ranges rs q) = q_queryid q"
  "q_search_params (set_ranges rs q) = q_search_params q"
  by (cases q; simp)+

lemma set_serialised_sel [simp]:
  "q_op (set_serialised s q) = q_op q"
  "q_subqs (set_serialised s q) = q_subqs q"
  "q_query (set_serialised s q) = q_query q"
  "q_refs (set_serialised s q) = q_refs q"
  "q_conn (set_serialised s q) = q_conn q"
  "q_ranges (set_serialised s q) = q_ranges q"
  "q_serialised (set_serialised s q) = s"
  "q_queryid (set_serialised s q) = q_queryid q"
  "q_search_params (set_serialised s q) = q_search_params q"
  by (cases q; simp)+

lemma set_search_params_sel [simp]:
  "q_op (set_search_params sp q) = q_op q"
  "q_subqs (set_search_params sp q) = q_subqs q"
  "q_query (set_search_params sp q) = q_query q"
  "q_refs (set_search_params sp q) = q_refs q"
  "q_conn (set_search_params sp q) = q_conn q"
  "q_ranges (set_search_params sp q) = q_ranges q"
  "q_serialised (set_search_params sp q) = q_serialised q"
  "q_queryid (set_search_params sp q) = q_queryid q"
  "q_search_params (set_search_params sp q) = sp"
  by (cases q; simp)+

lemma set_op_subqs_sel [simp]:
  "q_op (set_op_subqs op subqs q) = Some op"
  "q_subqs (set_op_subqs op subqs q) = Some subqs"
  "q_query (set_op_subqs op subqs q) = q_query q"
  "q_refs (set_op_subqs op subqs q) = q_refs q"
  "q_conn (set_op_subqs op subqs q) = q_conn q"
  "q_ranges (set_op_subqs op subqs q) = q_ranges q"
  "q_serialised (set_op_subqs op subqs q) = q_serialised q"
  "q_queryid (set_op_subqs op subqs q) = q_queryid q"
  "q_search_params (set_op_subqs op subqs q) = q_search_params q"
  by (cases q; simp)+

lemma Query_init_None: "Query_init PyNone None None None None None = Inr Query_new"
  by (simp add: Query_init_def Query_new_def)

lemma Query_init_Node:
  "Query_init (Node q) None None None None None =
     Inr (Query None None (q_query q) (q_refs q) (q_conn q) (merge_ranges [] (q_ranges q))
            (q_serialised q) None (q_search_params q))"
  by (simp add: Query_init_def merge_params_def combine_refs_ranges_def)

lemma merge_params_Query_new:
  "merge_params Query_new q =
     Inr (Query None None XQuery (q_refs q) (q_conn q) (merge_ranges [] (q_ranges q))
            (Some ''Query()'') None [])"
  by (simp add: merge_params_def combine_refs_ranges_def Query_new_def)

section \<open>Properties of the merge of parameters\<close>

lemma merge_ranges_append:
  "\<exists>new. merge_ranges target source = target @ new \<and> distinct new
         \<and> set new = set source - set target"
proof (induction source arbitrary: target)
  case Nil
  then show ?case by simp
next
  case (Cons r rs)
  show ?case
  proof (cases "r \<in> set target")
    case True
    with Cons.IH [of target] show ?thesis by auto
  next
    case False
    from Cons.IH [of "target @ [r]"] obtain new where
      n: "merge_ranges (target @ [r]) rs = (target @ [r]) @ new" "distinct new"
         "set new = set rs - set (target @ [r])" by blast
    have "merge_ranges target (r # rs) = target @ (r # new)" using False n(1) by simp
    moreover have "distinct (r # new)" using n(2,3) by auto
    moreover have "set (r # new) = set (r # rs) - set target" using False n(3) by auto
    ultimately show ?thesis by blast
  qed
qed

lemma distinct_count_list_one:
  "distinct xs \<Longrightarrow> x \<in> set xs \<Longrightarrow> count_list xs x = 1"
  by (induction xs) auto

lemma merge_params_fields:
  assumes "merge_params self query = Inr r"
  shows "q_op r = q_op self" "q_subqs r = q_subqs self" "q_query r = q_query self"
        "q_serialised r = q_serialised self" "q_queryid r = q_queryid self"
        "q_search_params r = q_search_params self"
        "q_refs r = q_refs self @ q_refs query"
        "q_ranges r = merge_ranges (q_ranges self) (q_ranges query)"
        "q_conn r = (if q_conn self = None then q_conn query else q_conn self)"
  using assms by (auto simp: merge_params_def combine_refs_ranges_def split: if_splits)

text \<open>
  C8.  Merging the parameters of \<open>query\<close> into \<open>self\<close>: when both carry a connection and
  the two differ, the merge raises the ValueError "Queries are not from the same
  connection"; when exactly one of the two carries a connection, the merge succeeds and
  the result carries that connection.
\<close>

theorem merge_params_connection:
  "(q_conn self = Some c \<and> q_conn query = Some d \<and> c \<noteq> d
      \<longrightarrow> merge_params self query = Inl (ValueError ConnectionMismatch))
   \<and> (q_conn self = Some c \<and> q_conn query = None
      \<longrightarrow> (\<exists>r. merge_params self query = Inr r \<and> q_conn r = Some c))
   \<and> (q_conn self = None \<and> q_conn query = Some c
      \<longrightarrow> (\<exists>r. merge_params self query = Inr r \<and> q_conn r = Some c))"
  by (simp add: merge_params_def combine_refs_ranges_def)

theorem merge_params_connection_witness:
  "merge_params (set_conn (Some 1) leaf_a) (set_conn (Some 2) leaf_b)
     = Inl (ValueError ConnectionMismatch)
   \<and> (\<exists>r. merge_params (set_conn (Some 1) leaf_a) leaf_b = Inr r \<and> q_conn r = Some 1)
   \<and> (\<exists>r. merge_params leaf_a (set_conn (Some 1) leaf_b) = Inr r \<and> q_conn r = Some 1)"
  using merge_params_connection [of "set_conn (Some 1) leaf_a" 1 "set_conn (Some 2) leaf_b" 2]
        merge_params_connection [of "set_conn (Some 1) leaf_a" 1 leaf_b 1]
        merge_params_connection [of leaf_a 1 "set_conn (Some 1) leaf_b"]
  by (simp add: leaf_a_def leaf_b_def)

text \<open>
  C9.  When the merge of \<open>source\<close> into \<open>target\<close> succeeds, the ranges of the result are
  the ranges of the target, in their order, followed by the ranges of the source that the
  target does not hold, each once.  A triple that both hold gains no copy; so when the
  target holds no triple twice (its ranges are a set), neither does the result, and a
  shared triple is there exactly once.
\<close>

theorem merge_params_ranges_union:
  assumes "merge_params target source = Inr r"
  shows "(\<exists>new. q_ranges r = q_ranges target @ new \<and> distinct new
               \<and> set new = set (q_ranges source) - set (q_ranges target))
         \<and> (\<forall>t. t \<in> set (q_ranges target) \<longrightarrow>
                  count_list (q_ranges r) t = count_list (q_ranges target) t)
         \<and> (distinct (q_ranges target) \<longrightarrow>
               distinct (q_ranges r)
               \<and> (\<forall>t. t \<in> set (q_ranges target) \<and> t \<in> set (q_ranges source) \<longrightarrow>
                        count_list (q_ranges r) t = 1))"
proof -
  have eq: "q_ranges r = merge_ranges (q_ranges target) (q_ranges source)"
    using assms by (rule merge_params_fields)
  obtain new where n: "merge_ranges (q_ranges target) (q_ranges source) = q_ranges target @ new"
      "distinct new" "set new = set (q_ranges source) - set (q_ranges target)"
    using merge_ranges_append by blast
  have c: "count_list (q_ranges r) t = count_list (q_ranges target) t"
    if "t \<in> set (q_ranges target)" for t
  proof -
    have "t \<notin> set new" using that n(3) by simp
    then show ?thesis using eq n(1) by (simp add: count_list_0_iff)
  qed
  have d: "distinct (q_ranges r)" if "distinct (q_ranges target)"
    using that eq n by auto
  have o: "count_list (q_ranges r) t = 1"
    if "distinct (q_ranges target)" "t \<in> set (q_ranges target)" for t
    using that c [of t] by (simp add: distinct_count_list_one)
  from eq n c d o show ?thesis by metis
qed

theorem merge_params_ranges_union_witness:
  "merge_params range_target range_source
     = Inr (set_ranges [(''price'', 1, 5), (''date'', 0, 9), (''size'', 2, 3)] leaf_a)
   \<and> distinct (q_ranges range_target)
   \<and> count_list [(''price'', 1, 5), (''date'', 0, 9), (''size'', 2, 3)] (''date'', 0, 9)
       = (1::nat)"
proof -
  have h: "merge_params range_target range_source
             = Inr (set_ranges [(''price'', 1, 5), (''date'', 0, 9), (''size'', 2, 3)] leaf_a)"
    by (simp add: merge_params_def combine_refs_ranges_def range_target_def range_source_def
                  leaf_a_def leaf_b_def)
  have d: "distinct (q_ranges range_target)"
    by (simp add: range_target_def)
  have m: "(''date'', 0, 9) \<in> set (q_ranges range_target)
           \<and> (''date'', 0, 9) \<in> set (q_ranges range_source)"
    by (simp add: range_target_def range_source_def)
  from merge_params_ranges_union [OF h] d m
  have "count_list (q_ranges (set_ranges [(''price'', 1, 5), (''date'', 0, 9), (''size'', 2, 3)]
                                leaf_a)) (''date'', 0, 9) = 1"
    by blast
  with h d show ?thesis by simp
qed

section \<open>Properties of normalisation\<close>

text \<open>
  C7.  When the maximum possible weight of a query is 0, or any number that is not
  positive, \<open>norm\<close> returns the query itself, every field unchanged.
\<close>

theorem norm_nonpositive_unchanged:
  assumes "get_max_possible_weight e self = Inr w" and "w \<le> 0"
  shows "norm_query e self maxweight = Inr self"
  using assms by (simp add: norm_query_def)

theorem norm_nonpositive_unchanged_witness:
  "get_max_possible_weight env_ex (set_conn (Some 0) leaf_a) = Inr 0
   \<and> norm_query env_ex (set_conn (Some 0) leaf_a) 1 = Inr (set_conn (Some 0) leaf_a)"
proof -
  have h: "get_max_possible_weight env_ex (set_conn (Some 0) leaf_a) = Inr 0"
    by (simp add: get_max_possible_weight_def empty_query_def env_ex_def leaf_a_def)
  from norm_nonpositive_unchanged [OF h, of 1] h show ?thesis by simp
qed

text \<open>
  C5.  As stated (every query without a connection makes \<open>norm\<close> raise the ValueError
  "This Query is not associated with a SearchConnection") the claim fails:
  \<open>get_max_possible_weight\<close> answers 0 for an empty query before it looks at the
  connection, so \<open>Query().norm()\<close> returns the query.
\<close>

theorem norm_no_connection_counterexample:
  "q_conn Query_new = None \<and> norm_query env_ex Query_new 1 = Inr Query_new"
  by (simp add: norm_query_def get_max_possible_weight_def empty_query_def env_ex_def
                Query_new_def)

text \<open>
  C5, amended.  For a query without a connection, \<open>norm\<close> raises that ValueError when
  the query is not empty, and returns the query itself when it is empty.
\<close>

theorem norm_no_connection:
  assumes "q_conn self = None"
  shows "(\<not> empty_query e self \<longrightarrow> norm_query e self maxweight = Inl (ValueError NoConnection))
         \<and> (empty_query e self \<longrightarrow> norm_query e self maxweight = Inr self)"
  using assms by (simp add: norm_query_def get_max_possible_weight_def)

theorem norm_no_connection_witness:
  "q_conn leaf_a = None \<and> \<not> empty_query env_ex leaf_a
   \<and> norm_query env_ex leaf_a 1 = Inl (ValueError NoConnection)
   \<and> q_conn Query_new = None \<and> empty_query env_ex Query_new
   \<and> norm_query env_ex Query_new 1 = Inr Query_new"
proof -
  have a: "q_conn leaf_a = None" "\<not> empty_query env_ex leaf_a"
    by (simp_all add: leaf_a_def empty_query_def env_ex_def)
  have n: "q_conn Query_new = None" "empty_query env_ex Query_new"
    by (simp_all add: Query_new_def empty_query_def env_ex_def)
  from norm_no_connection [OF a(1), of env_ex 1] norm_no_connection [OF n(1), of env_ex 1] a n
  show ?thesis by simp
qed

text \<open>
  C10, amended.  For a query that is not empty, whose connection reports a positive maximum
  possible weight and whose serialised form is \<open>None\<close>, and for a \<open>maxweight\<close> that is
  not negative (the default of \<open>norm()\<close> is 1.0): when the query is composable, \<open>norm\<close>
  raises the TypeError of \<open>None + '.norm()'\<close>; when it is not, the scaling \<open>self * x\<close>
  raises the composability ValueError first.  No query is returned.
\<close>

theorem norm_unknown_serialised:
  assumes "\<not> empty_query e self" and "q_conn self = Some c"
      and "0 < conn_max_weight e c self" and "q_serialised self = None"
      and "0 \<le> maxweight"
  shows "norm_query e self maxweight =
           (if is_composable self then Inl (TypeError NoneConcat)
            else Inl (ValueError NotComposable))"
proof -
  have "\<not> maxweight / conn_max_weight e c self < 0"
    using assms(3,5) by (simp add: divide_less_0_iff)
  with assms(1-4) show ?thesis
    by (simp add: norm_query_def get_max_possible_weight_def mul_def merge_params_Query_new
                  check_composable_def)
qed

theorem norm_unknown_serialised_witness:
  "\<not> empty_query env_ex (set_conn (Some 1) raw_node)
   \<and> q_conn (set_conn (Some 1) raw_node) = Some 1
   \<and> 0 < conn_max_weight env_ex 1 (set_conn (Some 1) raw_node)
   \<and> q_serialised (set_conn (Some 1) raw_node) = None
   \<and> is_composable (set_conn (Some 1) raw_node)
   \<and> norm_query env_ex (set_conn (Some 1) raw_node) 1 = Inl (TypeError NoneConcat)"
proof -
  have h: "\<not> empty_query env_ex (set_conn (Some 1) raw_node)"
          "q_conn (set_conn (Some 1) raw_node) = Some 1"
          "0 < conn_max_weight env_ex 1 (set_conn (Some 1) raw_node)"
          "q_serialised (set_conn (Some 1) raw_node) = None"
    by (simp_all add: raw_node_def empty_query_def env_ex_def)
  have c: "is_composable (set_conn (Some 1) raw_node)"
    by (simp add: is_composable_def raw_node_def)
  have m: "(0::real) \<le> 1" by simp
  from norm_unknown_serialised [OF h m] h c show ?thesis by simp
qed

text \<open>
  A query that \<open>get_facets\<close> returns has a serialised form, so a query with facets and
  without one comes from \<open>_set_serialised(None)\<close> only.
\<close>

lemma get_facets_serialised:
  "get_facets e q fieldnames ca dn = Inr f \<Longrightarrow> q_serialised f \<noteq> None"
  by (auto simp: get_facets_def Query_init_Node Let_def
           split: prod.splits if_splits option.splits)

text \<open>
  C10.  As stated (a TypeError for every such query) the claim fails on a query that
  carries facets: \<open>get_facets\<close> on a query of connection 1 followed by
  \<open>_set_serialised(None)\<close> gives a query that is not empty and has a positive maximum
  possible weight and no serialised form, on which \<open>norm\<close> raises the ValueError "Can't
  compose this query with other queries."
\<close>

theorem norm_unknown_serialised_counterexample:
  "get_facets env_ex (set_conn (Some 1) leaf_a) [''f''] None None
     = Inr (set_conn (Some 1) faceted_a)
   \<and> faceted_unknown = set_serialised None (set_conn (Some 1) faceted_a)
   \<and> \<not> empty_query env_ex faceted_unknown
   \<and> q_conn faceted_unknown = Some 1
   \<and> 0 < conn_max_weight env_ex 1 faceted_unknown
   \<and> q_serialised faceted_unknown = None
   \<and> norm_query env_ex faceted_unknown 1 = Inl (ValueError NotComposable)"
  by (simp add: get_facets_def Query_init_Node setdefault_facets_def set_fields_def
                faceted_a_def faceted_unknown_def leaf_a_def env_ex_def empty_query_def
                norm_query_def get_max_possible_weight_def mul_def merge_params_Query_new
                check_composable_def is_composable_def)

section \<open>Properties of facets and composability\<close>

text \<open>
  C2.  \<open>get_facets_except\<close> on a leaf query with the serialised form \<open>A\<close> and no facets
  returns no query: it raises TypeError, from \<open>''.join\<close> called with four arguments.
\<close>

theorem get_facets_except_failing_input:
  "get_facets_except env_ex leaf_a [''f''] None None = Inl (TypeError JoinArgCount)"
  by (simp add: get_facets_except_def Query_init_Node setdefault_facets_def leaf_a_def)

text \<open>On every input \<open>get_facets_except\<close> raises one of its two exceptions.\<close>

lemma get_facets_except_raises:
  "get_facets_except e self fieldnames ca dn = Inl (TypeError JoinArgCount)
   \<or> get_facets_except e self fieldnames ca dn = Inl (ValueError ExceptAfterFacets)"
  by (simp add: get_facets_except_def Query_init_Node split: prod.split)

lemma check_queries_not_composable:
  "Node f \<in> set qs \<Longrightarrow> \<not> is_composable f \<Longrightarrow> check_queries qs = Inl (ValueError NotComposable)"
proof (induction qs)
  case Nil
  then show ?case by simp
next
  case (Cons x xs)
  then show ?case by (cases x) (auto simp: check_composable_def)
qed

lemma compose_not_composable:
  assumes "Node f \<in> set queries" and "\<not> is_composable f"
      and "2 \<le> length (filter is_not_None queries)"
  shows "compose op queries = Inl (ValueError NotComposable)"
proof -
  have "Node f \<in> set (filter is_not_None queries)" using assms(1) by simp
  then have "check_queries (filter is_not_None queries) = Inl (ValueError NotComposable)"
    using assms(2) by (rule check_queries_not_composable)
  moreover have "filter is_not_None queries \<noteq> []"
                "length (filter is_not_None queries) \<noteq> Suc 0"
    using assms(3) by auto
  ultimately show ?thesis by (simp add: compose_def Let_def)
qed

lemma combine_with_not_composable:
  "\<not> is_composable f \<Longrightarrow> combine_with f pop other = Inl (ValueError NotComposable)"
  "\<not> is_composable f \<Longrightarrow> combine_with s pop (Node f) = Inl (ValueError NotComposable)"
  by (simp_all add: combine_with_def Query_init_Node check_composable_def)

lemma get_facets_not_composable:
  assumes "get_facets e q fieldnames ca dn = Inr f"
  shows "\<not> is_composable f"
proof -
  have "AList.update ''facets'' v sp \<noteq> []" for v :: facets and sp
    by (cases sp) (auto split: if_splits)
  with assms show ?thesis
    by (auto simp: get_facets_def Query_init_Node is_composable_def Let_def
             split: prod.splits if_splits option.splits)
qed

text \<open>
  C4.  As stated (every composition with a query returned by \<open>get_facets\<close> as an operand
  fails) the claim fails for \<open>compose\<close> on a single operand: the case of one query
  returns a copy before the operands are checked.
\<close>

lemma merge_ranges_distinct:
  "distinct (target @ source) \<Longrightarrow> merge_ranges target source = target @ source"
  by (induction source arbitrary: target) auto

lemma merge_ranges_idem:
  "merge_ranges [] (merge_ranges [] rs) = merge_ranges [] rs"
proof -
  obtain new where "merge_ranges [] rs = [] @ new" "distinct new"
    using merge_ranges_append by blast
  then show ?thesis by (simp add: merge_ranges_distinct)
qed

text \<open>\<open>Query(f)\<close> of a query that \<open>get_facets\<close> returned has the fields of \<open>f\<close>.\<close>

lemma get_facets_copy:
  assumes "get_facets e q fieldnames ca dn = Inr f"
  shows "Query_init (Node f) None None None None None = Inr f"
proof -
  from assms obtain s sp where
    "f = Query None None (q_query q) (q_refs q) (q_conn q) (merge_ranges [] (q_ranges q))
           (Some s) None sp"
    by (auto simp: get_facets_def Query_init_Node Let_def
             split: prod.splits if_splits option.splits)
  then show ?thesis by (simp add: Query_init_Node merge_ranges_idem)
qed

theorem facets_operand_counterexample:
  "get_facets env_ex leaf_a [''f''] None None = Inr faceted_a
   \<and> compose OP_AND [Node faceted_a] = Inr faceted_a"
  by (simp add: get_facets_def Query_init_Node setdefault_facets_def set_fields_def
                faceted_a_def leaf_a_def env_ex_def compose_def)

text \<open>
  C4, amended.  When \<open>get_facets\<close> returns \<open>f\<close>: \<open>compose\<close> on a list that holds \<open>f\<close>
  and at least two entries other than \<open>None\<close> raises the ValueError "Can't compose this
  query with other queries."; \<open>compose\<close> on a list whose only entry other than \<open>None\<close>
  is \<open>f\<close> returns a copy of \<open>f\<close>, equal to it in every field; the ValueError is also
  raised by \<open>&\<close>, \<open>|\<close> and \<open>^\<close> with \<open>f\<close> on the left and a query on the right, or
  with \<open>f\<close> on the right of a query, and by \<open>xor\<close>, \<open>and_not\<close>, \<open>filter\<close>,
  \<open>adjust\<close> and \<open>and_maybe\<close> with \<open>f\<close> on either side.
\<close>

theorem facets_operand_rejected:
  assumes "get_facets e q fieldnames ca dn = Inr f"
  shows "(Node f \<in> set queries \<and> 2 \<le> length (filter is_not_None queries)
            \<longrightarrow> compose op queries = Inl (ValueError NotComposable))
         \<and> (filter is_not_None queries = [Node f] \<longrightarrow> compose op queries = Inr f)
         \<and> (is_query_instance other \<longrightarrow>
               query_and f other = Inl (ValueError NotComposable)
               \<and> query_or f other = Inl (ValueError NotComposable)
               \<and> query_xor f other = Inl (ValueError NotComposable))
         \<and> query_and s (Node f) = Inl (ValueError NotComposable)
         \<and> query_or s (Node f) = Inl (ValueError NotComposable)
         \<and> query_xor s (Node f) = Inl (ValueError NotComposable)
         \<and> xor_query f other = Inl (ValueError NotComposable)
         \<and> xor_query s (Node f) = Inl (ValueError NotComposable)
         \<and> and_not f other = Inl (ValueError NotComposable)
         \<and> and_not s (Node f) = Inl (ValueError NotComposable)
         \<and> filter_query f other = Inl (ValueError NotComposable)
         \<and> filter_query s (Node f) = Inl (ValueError NotComposable)
         \<and> adjust f other = Inl (ValueError NotComposable)
         \<and> adjust s (Node f) = Inl (ValueError NotComposable)
         \<and> and_maybe f other = Inl (ValueError NotComposable)
         \<and> and_maybe s (Node f) = Inl (ValueError NotComposable)"
proof -
  have nc: "\<not> is_composable f" using assms by (rule get_facets_not_composable)
  have c: "compose op queries = Inl (ValueError NotComposable)"
    if "Node f \<in> set queries" "2 \<le> length (filter is_not_None queries)"
    using that(1) nc that(2) by (rule compose_not_composable)
  have l: "compose op' [Node f, other] = Inl (ValueError NotComposable)"
    if "is_query_instance other" for op'
    using that nc by (intro compose_not_composable [of f]) (cases other; simp)+
  have r: "compose op' [Node s, Node f] = Inl (ValueError NotComposable)" for op'
    using nc by (intro compose_not_composable [of f]) simp_all
  have p: "combine_with f pop other = Inl (ValueError NotComposable)"
          "combine_with s pop (Node f) = Inl (ValueError NotComposable)" for pop
    using nc by (simp_all add: combine_with_not_composable)
  have o: "compose op queries = Inr f" if "filter is_not_None queries = [Node f]"
    using that get_facets_copy [OF assms] by (simp add: compose_def)
  show ?thesis
    using c l r p o
    by (simp add: query_and_def query_or_def query_xor_def xor_query_def and_not_def
                  filter_query_def adjust_def and_maybe_def)
qed

theorem facets_operand_rejected_witness:
  "get_facets env_ex leaf_a [''f''] None None = Inr faceted_a
   \<and> compose OP_OR [Node leaf_b, PyNone, Node faceted_a] = Inl (ValueError NotComposable)
   \<and> compose OP_OR [PyNone, Node faceted_a, PyNone] = Inr faceted_a
   \<and> query_and faceted_a (Node leaf_b) = Inl (ValueError NotComposable)
   \<and> filter_query leaf_b (Node faceted_a) = Inl (ValueError NotComposable)"
proof -
  have h: "get_facets env_ex leaf_a [''f''] None None = Inr faceted_a"
    by (simp add: get_facets_def Query_init_Node setdefault_facets_def set_fields_def
                  faceted_a_def leaf_a_def env_ex_def)
  from facets_operand_rejected
         [OF h, where queries = "[Node leaf_b, PyNone, Node faceted_a]" and op = OP_OR
                  and other = "Node leaf_b" and s = leaf_b]
       facets_operand_rejected
         [OF h, where queries = "[PyNone, Node faceted_a, PyNone]" and op = OP_OR] h
  show ?thesis by simp
qed

section \<open>Flattening and the serialised form of a composition\<close>

lemma build_result:
  "build fl (xs, ser, res) = Inr (xs', ser', res') \<Longrightarrow>
     q_op res' = q_op res \<and> q_subqs res' = q_subqs res
     \<and> q_search_params res' = q_search_params res
     \<and> q_serialised res' = q_serialised res
     \<and> ser' = (case ser of None \<Rightarrow> None
                | Some ss \<Rightarrow> map_option ((@) ss) (those (map serialised_of fl)))"
proof (induction fl arbitrary: xs ser res)
  case Nil
  then show ?case by (cases ser) auto
next
  case (Cons x fl)
  show ?case
  proof (cases x)
    case PyNone
    with Cons.prems show ?thesis by simp
  next
    case (Raw xq)
    with Cons.prems have "build fl (xs @ [xq], None, res) = Inr (xs', ser', res')" by simp
    from Cons.IH [OF this] Raw show ?thesis by (simp split: option.splits)
  next
    case (Node q)
    with Cons.prems obtain res1 where
      m: "merge_params res q = Inr res1"
      and b: "build fl (xs @ [q_query q],
                (case ser of None \<Rightarrow> None
                 | Some ss \<Rightarrow> (case q_serialised q of None \<Rightarrow> None | Some s \<Rightarrow> Some (ss @ [s]))),
                res1) = Inr (xs', ser', res')"
      by (auto split: sum.splits)
    from Cons.IH [OF b] merge_params_fields [OF m] Node show ?thesis
      by (cases ser; cases "q_serialised q"; cases "those (map serialised_of fl)") auto
  next
    case Other
    with Cons.prems show ?thesis by simp
  qed
qed

lemma those_length: "those xs = Some ys \<Longrightarrow> length ys = length xs"
  by (induction xs arbitrary: ys) (auto split: option.splits)

lemma compose_serialised_many:
  "3 \<le> length ss \<Longrightarrow>
     compose_serialised op ss =
       ''Query.compose('' @ (case op of OP_AND \<Rightarrow> ''Query.OP_AND'' | OP_OR \<Rightarrow> ''Query.OP_OR'')
         @ '', ('' @ join '', '' ss @ ''))''"
  by (auto simp: compose_serialised_def)

lemma compose_flattened_fields:
  assumes "compose_flattened op fl = Inr r"
  shows "q_op r = Some op" "q_subqs r = Some fl" "q_search_params r = []"
        "q_serialised r = (case those (map serialised_of fl) of
                             None \<Rightarrow> Some ''Query()''
                           | Some ss \<Rightarrow> Some (compose_serialised op ss))"
proof -
  from assms obtain xs ser res where
    b: "build fl ([], Some [], set_op_subqs op fl Query_new) = Inr (xs, ser, res)"
    and r: "r = (case ser of None \<Rightarrow> set_query (XMulti op xs) res
                 | Some ss \<Rightarrow> set_serialised (Some (compose_serialised op ss))
                               (set_query (XMulti op xs) res))"
    by (auto simp: compose_flattened_def split: sum.splits)
  note f = build_result [OF b]
  show "q_op r = Some op" "q_subqs r = Some fl" "q_search_params r = []"
    using f r by (auto simp: Query_new_def split: option.splits)
  show "q_serialised r = (case those (map serialised_of fl) of
                             None \<Rightarrow> Some ''Query()''
                           | Some ss \<Rightarrow> Some (compose_serialised op ss))"
    using f r by (auto simp: Query_new_def split: option.splits)
qed

lemma flatten1_Node:
  "flatten1 op (Node q) = Inr f \<Longrightarrow>
     (if q_op q = Some op then q_subqs q = Some f else f = [Node q])"
  by (auto split: if_splits option.splits)

lemma compose_two:
  assumes "is_composable a" "is_composable b"
  shows "compose op [Node a, Node b] =
           (case flatten1 op (Node a) of Inl e \<Rightarrow> Inl e
            | Inr fa \<Rightarrow> (case flatten1 op (Node b) of Inl e \<Rightarrow> Inl e
               | Inr fb \<Rightarrow> compose_flattened op (fa @ fb)))"
  using assms by (simp add: compose_def check_composable_def split: sum.splits)

lemma compose_three:
  assumes "is_composable a" "is_composable b" "is_composable c"
  shows "compose op [Node a, Node b, Node c] =
           (case flatten1 op (Node a) of Inl e \<Rightarrow> Inl e
            | Inr fa \<Rightarrow> (case flatten1 op (Node b) of Inl e \<Rightarrow> Inl e
               | Inr fb \<Rightarrow> (case flatten1 op (Node c) of Inl e \<Rightarrow> Inl e
                  | Inr fc \<Rightarrow> compose_flattened op (fa @ fb @ fc))))"
  using assms by (simp add: compose_def check_composable_def split: sum.splits)

text \<open>
  C6.  For composable queries \<open>a\<close>, \<open>b\<close>, \<open>c\<close> and \<open>ab = compose(op, [a, b])\<close>,
  \<open>compose(op, [ab, c])\<close> is \<open>compose(op, [a, b, c])\<close>: the same result, or the same
  exception.  The flattened operand list is that of \<open>a\<close>, then \<open>b\<close>, then \<open>c\<close>, where
  an operand whose operator is \<open>op\<close> gives its own subqueries as they are (one level,
  whatever their operators) and any other operand gives itself; and when every flattened
  operand has a serialised form and there are three or more, the serialised form of the
  result is the call \<open>Query.compose(Query.OP_..., (...))\<close> over the flattened list.
\<close>

theorem compose_flattening:
  assumes "is_composable a" and "is_composable b" and "is_composable c"
      and "compose op [Node a, Node b] = Inr ab"
  shows "compose op [Node ab, Node c] = compose op [Node a, Node b, Node c]
         \<and> (\<exists>fa fb. flatten1 op (Node a) = Inr fa \<and> flatten1 op (Node b) = Inr fb
                \<and> (if q_op a = Some op then q_subqs a = Some fa else fa = [Node a])
                \<and> (if q_op b = Some op then q_subqs b = Some fb else fb = [Node b])
                \<and> q_subqs ab = Some (fa @ fb)
                \<and> (\<forall>r. compose op [Node a, Node b, Node c] = Inr r \<longrightarrow>
                      (\<exists>fc. flatten1 op (Node c) = Inr fc
                         \<and> (if q_op c = Some op then q_subqs c = Some fc else fc = [Node c])
                         \<and> q_subqs r = Some (fa @ fb @ fc)
                         \<and> (\<forall>ss. those (map serialised_of (fa @ fb @ fc)) = Some ss
                                   \<and> 3 \<le> length (fa @ fb @ fc) \<longrightarrow>
                               q_serialised r =
                                 Some (''Query.compose(''
                                   @ (case op of OP_AND \<Rightarrow> ''Query.OP_AND'' | OP_OR \<Rightarrow> ''Query.OP_OR'')
                                   @ '', ('' @ join '', '' ss @ ''))'')))))"
proof -
  from assms(1,2,4) obtain fa fb where
    fa: "flatten1 op (Node a) = Inr fa" and fb: "flatten1 op (Node b) = Inr fb"
    and ab: "compose_flattened op (fa @ fb) = Inr ab"
    by (auto simp: compose_two split: sum.splits)
  note abf = compose_flattened_fields [OF ab]
  have cab: "is_composable ab" using abf(3) by (simp add: is_composable_def)
  have fab: "flatten1 op (Node ab) = Inr (fa @ fb)" using abf(1,2) by simp
  have eq: "compose op [Node ab, Node c] = compose op [Node a, Node b, Node c]"
    using fa fb fab
    by (cases "flatten1 op (Node c)")
       (simp_all add: compose_two [OF cab assms(3)] compose_three [OF assms(1-3)]
                 del: flatten1.simps)
  have sub: "\<exists>fc. flatten1 op (Node c) = Inr fc
               \<and> (if q_op c = Some op then q_subqs c = Some fc else fc = [Node c])
               \<and> q_subqs r = Some (fa @ fb @ fc)
               \<and> (\<forall>ss. those (map serialised_of (fa @ fb @ fc)) = Some ss
                         \<and> 3 \<le> length (fa @ fb @ fc) \<longrightarrow>
                     q_serialised r =
                       Some (''Query.compose(''
                         @ (case op of OP_AND \<Rightarrow> ''Query.OP_AND'' | OP_OR \<Rightarrow> ''Query.OP_OR'')
                         @ '', ('' @ join '', '' ss @ ''))''))"
    if r: "compose op [Node a, Node b, Node c] = Inr r" for r
  proof -
    from r fa fb obtain fc where fc: "flatten1 op (Node c) = Inr fc"
      and cf: "compose_flattened op (fa @ fb @ fc) = Inr r"
      by (auto simp: compose_three [OF assms(1-3)] split: sum.splits)
    note rf = compose_flattened_fields [OF cf]
    have "q_serialised r = Some (''Query.compose(''
              @ (case op of OP_AND \<Rightarrow> ''Query.OP_AND'' | OP_OR \<Rightarrow> ''Query.OP_OR'')
              @ '', ('' @ join '', '' ss @ ''))'')"
      if "those (map serialised_of (fa @ fb @ fc)) = Some ss" "3 \<le> length (fa @ fb @ fc)" for ss
    proof -
      have "length ss = length (map serialised_of (fa @ fb @ fc))"
        using that(1) by (rule those_length)
      with that(2) have "3 \<le> length ss" by simp
      then show ?thesis using rf(4) that(1) by (simp add: compose_serialised_many)
    qed
    with fc flatten1_Node [OF fc] rf(2) show ?thesis by blast
  qed
  from eq fa fb flatten1_Node [OF fa] flatten1_Node [OF fb] abf(2) sub show ?thesis by blast
qed

lemmas eval_defs = compose_def compose_flattened_def check_composable_def is_composable_def
  merge_params_def combine_refs_ranges_def Query_new_def compose_serialised_def
  leaf_a_def leaf_b_def leaf_c_def raw_node_def evalable_repr_def Query_init_def
  combine_with_def filter_query_def

theorem compose_flattening_witness:
  "is_composable leaf_a \<and> is_composable leaf_b \<and> is_composable leaf_c
   \<and> compose OP_AND [Node leaf_a, Node leaf_b] = Inr and_ab
   \<and> compose OP_AND [Node and_ab, Node leaf_c]
       = compose OP_AND [Node leaf_a, Node leaf_b, Node leaf_c]
   \<and> map_sum id evalable_repr (compose OP_AND [Node leaf_a, Node leaf_b, Node leaf_c])
       = Inr (Some ''Query.compose(Query.OP_AND, (A, B, C))'')"
proof -
  have c: "is_composable leaf_a" "is_composable leaf_b" "is_composable leaf_c"
    by (simp_all add: is_composable_def leaf_a_def leaf_b_def leaf_c_def)
  have h: "compose OP_AND [Node leaf_a, Node leaf_b] = Inr and_ab"
    by (simp add: eval_defs and_ab_def)
  have t: "map_sum id evalable_repr (compose OP_AND [Node leaf_a, Node leaf_b, Node leaf_c])
             = Inr (Some ''Query.compose(Query.OP_AND, (A, B, C))'')"
    by (simp add: eval_defs)
  from compose_flattening [OF c h] c h t show ?thesis by simp
qed

text \<open>
  C1.  A query built from a raw engine expression has no serialised form.  Composed by
  \<open>compose\<close> with a second operand, though, the result does not have \<open>None\<close> for its
  serialised form but the \<open>'Query()'\<close> that \<open>result = Query()\<close> started with; and
  \<open>a.filter(u)\<close>, for \<open>u\<close> without a serialised form, keeps the serialised form of
  \<open>a\<close>.
\<close>

theorem unknown_provenance_failing_input:
  "Query_init (Raw (XRaw ''t'')) None None None None None = Inr raw_node
   \<and> evalable_repr raw_node = None
   \<and> map_sum id evalable_repr (compose OP_AND [Node raw_node, Node leaf_a])
       = Inr (Some ''Query()'')
   \<and> map_sum id evalable_repr (compose OP_OR [Node leaf_a, Raw (XRaw ''t'')])
       = Inr (Some ''Query()'')
   \<and> map_sum id evalable_repr (filter_query leaf_a (Node raw_node)) = Inr (Some ''A'')
   \<and> map_sum id evalable_repr (filter_query leaf_a (Raw (XRaw ''t''))) = Inr (Some ''A'')"
  by (simp add: eval_defs)

text \<open>
  The general facts behind it: the constructor on a raw expression gives \<open>None\<close>;
  \<open>compose\<close> on two or more operands gives \<open>'Query()'\<close> as soon as one flattened operand
  has no serialised form; \<open>__combine_with\<close> gives \<open>None\<close> when the left operand has
  none, and the left operand's serialised form when the right operand has none.
\<close>

lemma Query_init_Raw_unknown:
  "\<exists>r. Query_init (Raw xq) None None None None None = Inr r \<and> evalable_repr r = None"
  by (simp add: Query_init_def evalable_repr_def)

lemma compose_flattened_unknown:
  assumes "compose_flattened op fl = Inr r" and "those (map serialised_of fl) = None"
  shows "evalable_repr r = Some ''Query()''"
  using compose_flattened_fields(4) [OF assms(1)] assms(2) by (simp add: evalable_repr_def)

lemma combine_with_unknown_left:
  assumes "combine_with self pop other = Inr r" and "q_serialised self = None"
  shows "evalable_repr r = None"
  using assms
  by (auto simp: combine_with_def Query_init_Node evalable_repr_def
           split: sum.splits operand.splits if_splits dest: merge_params_fields(4))

lemma combine_with_unknown_right:
  assumes "combine_with self pop other = Inr r" and "serialised_of other = None"
  shows "evalable_repr r = q_serialised self"
  using assms
  by (cases other)
     (auto simp: combine_with_def Query_init_Node evalable_repr_def
           split: sum.splits if_splits option.splits dest: merge_params_fields(4))

lemma build_same_connection:
  assumes "\<And>x. x \<in> set fl \<Longrightarrow> \<exists>q. x = Node q \<and> q_conn q = cn"
      and "q_conn res = None \<or> q_conn res = cn"
  shows "\<exists>st. build fl (xs, ser, res) = Inr st"
  using assms
proof (induction fl arbitrary: xs ser res)
  case Nil
  then show ?case by simp
next
  case (Cons x fl)
  from Cons.prems(1) [of x] obtain q where q: "x = Node q" "q_conn q = cn" by auto
  have "\<exists>res1. merge_params res q = Inr res1 \<and> (q_conn res1 = None \<or> q_conn res1 = cn)"
    using Cons.prems(2) q(2) by (auto simp: merge_params_def combine_refs_ranges_def)
  then obtain res1 where
    m: "merge_params res q = Inr res1" and c: "q_conn res1 = None \<or> q_conn res1 = cn"
    by blast
  have "\<exists>st. build fl (xs @ [q_query q],
                 (case ser of None \<Rightarrow> None
                  | Some ss \<Rightarrow> (case q_serialised q of None \<Rightarrow> None | Some s \<Rightarrow> Some (ss @ [s]))),
                 res1) = Inr st"
    using Cons.prems(1) c by (intro Cons.IH) auto
  with q(1) m show ?case by simp
qed

lemma compose_flattened_same_connection:
  assumes "\<And>x. x \<in> set fl \<Longrightarrow> \<exists>q. x = Node q \<and> q_conn q = cn"
  shows "\<exists>r. compose_flattened op fl = Inr r"
proof -
  have "q_conn (set_op_subqs op fl Query_new) = None \<or> q_conn (set_op_subqs op fl Query_new) = cn"
    by (simp add: Query_new_def)
  with assms obtain st where
    "build fl ([], Some [], set_op_subqs op fl Query_new) = Inr st"
    using build_same_connection by blast
  then show ?thesis by (cases st) (simp add: compose_flattened_def)
qed

text \<open>
  C3.  As stated the claim fails on its first text: the serialised form of
  \<open>compose(OP_OR, [a, b, c])\<close> spells the class out,
  \<open>Query.compose(Query.OP_OR, (A, B, C))\<close>.
\<close>

theorem serialised_scenario_counterexample:
  "map_sum id evalable_repr (compose OP_OR [Node leaf_a, Node leaf_b, Node leaf_c])
     = Inr (Some ''Query.compose(Query.OP_OR, (A, B, C))'')
   \<and> ''Query.compose(Query.OP_OR, (A, B, C))'' \<noteq> ''compose(OP_OR, (A, B, C))''"
  by (simp add: eval_defs)

text \<open>
  C3, amended.  For composable leaf queries \<open>a\<close>, \<open>b\<close>, \<open>c\<close> of one connection (or of
  none) with the serialised forms \<open>A\<close>, \<open>B\<close>, \<open>C\<close>: \<open>compose(OP_OR, [a, b, c])\<close>
  returns a query with the serialised form \<open>Query.compose(Query.OP_OR, (A, B, C))\<close>,
  \<open>a.filter(b)\<close> one with \<open>A.filter(B)\<close>, and \<open>a * 2.0\<close> one with \<open>(A * 2.0)\<close>,
  \<open>repr(2.0)\<close> being \<open>2.0\<close>.
\<close>

theorem serialised_scenario:
  assumes "q_serialised a = Some ''A''" and "q_serialised b = Some ''B''"
      and "q_serialised c = Some ''C''"
      and "q_op a = None" and "q_op b = None" and "q_op c = None"
      and "is_composable a" and "is_composable b" and "is_composable c"
      and "q_conn b = q_conn a" and "q_conn c = q_conn a"
  shows "(\<exists>r. compose OP_OR [Node a, Node b, Node c] = Inr r
              \<and> evalable_repr r = Some ''Query.compose(Query.OP_OR, (A, B, C))'')
         \<and> (\<exists>r. filter_query a (Node b) = Inr r \<and> evalable_repr r = Some ''A.filter(B)'')
         \<and> (repr_mult e (Num 2) = ''2.0'' \<longrightarrow>
               (\<exists>r. mul e a (Num 2) = Inr (Ret r) \<and> evalable_repr r = Some ''(A * 2.0)''))"
proof -
  have 1: "\<exists>r. compose OP_OR [Node a, Node b, Node c] = Inr r
              \<and> evalable_repr r = Some ''Query.compose(Query.OP_OR, (A, B, C))''"
  proof -
    have f: "compose OP_OR [Node a, Node b, Node c]
               = compose_flattened OP_OR [Node a, Node b, Node c]"
      using assms(4-6) by (simp add: compose_three [OF assms(7-9)])
    have "\<exists>q. x = Node q \<and> q_conn q = q_conn a" if "x \<in> set [Node a, Node b, Node c]" for x
      using that assms(10,11) by auto
    then obtain r where r: "compose_flattened OP_OR [Node a, Node b, Node c] = Inr r"
      using compose_flattened_same_connection by blast
    from compose_flattened_fields(4) [OF r] assms(1-3)
    have "evalable_repr r = Some ''Query.compose(Query.OP_OR, (A, B, C))''"
      by (simp add: evalable_repr_def compose_serialised_def)
    with f r show ?thesis by simp
  qed
  have 2: "\<exists>r. filter_query a (Node b) = Inr r \<and> evalable_repr r = Some ''A.filter(B)''"
    using assms
    by (simp add: filter_query_def combine_with_def Query_init_Node check_composable_def
                  merge_params_def combine_refs_ranges_def evalable_repr_def)
  have 3: "\<exists>r. mul e a (Num 2) = Inr (Ret r) \<and> evalable_repr r = Some ''(A * 2.0)''"
    if "repr_mult e (Num 2) = ''2.0''"
    using assms that
    by (simp add: mul_def merge_params_Query_new check_composable_def evalable_repr_def)
  from 1 2 3 show ?thesis by blast
qed

theorem serialised_scenario_witness:
  "(\<exists>r. compose OP_OR [Node leaf_a, Node leaf_b, Node leaf_c] = Inr r
         \<and> evalable_repr r = Some ''Query.compose(Query.OP_OR, (A, B, C))'')
   \<and> (\<exists>r. filter_query leaf_a (Node leaf_b) = Inr r \<and> evalable_repr r = Some ''A.filter(B)'')
   \<and> repr_mult env_ex (Num 2) = ''2.0''
   \<and> (\<exists>r. mul env_ex leaf_a (Num 2) = Inr (Ret r) \<and> evalable_repr r = Some ''(A * 2.0)'')"
proof -
  have h: "q_serialised leaf_a = Some ''A''" "q_serialised leaf_b = Some ''B''"
          "q_serialised leaf_c = Some ''C''"
          "q_op leaf_a = None" "q_op leaf_b = None" "q_op leaf_c = None"
          "is_composable leaf_a" "is_composable leaf_b" "is_composable leaf_c"
          "q_conn leaf_b = q_conn leaf_a" "q_conn leaf_c = q_conn leaf_a"
    by (simp_all add: leaf_a_def leaf_b_def leaf_c_def is_composable_def)
  have m: "repr_mult env_ex (Num 2) = ''2.0''" by (simp add: env_ex_def)
  from serialised_scenario [OF h, of env_ex] m show ?thesis by blast
qed

end
